theory Spec2Isabelle
  imports Complex_Main "HOL-Library.Sublist"
begin

section \<open>JavaScript strings\<close>

text \<open>
  A JavaScript string is a sequence of UTF-16 code units; a code unit is modelled as a
  natural number. Every literal of the source lies in the Latin-1 range, where the code
  unit of a character is its code point, so a literal is written as an Isabelle string
  (accented letters as \<open>CHR 0x..\<close>) and read through \<open>latin1\<close>.
\<close>

type_synonym js_string = "nat list"

definition latin1 :: "string \<Rightarrow> js_string" where
  "latin1 = map of_char"

text \<open>\<open>String.prototype.includes\<close>: the needle occurs at some position of the string.\<close>

fun js_includes :: "js_string \<Rightarrow> js_string \<Rightarrow> bool" where
  "js_includes [] needle = (needle = [])"
| "js_includes (c # cs) needle = (prefix needle (c # cs) \<or> js_includes cs needle)"

text \<open>
  \<open>String.prototype.trim\<close> removes the white space and line terminators of ECMAScript
  from both ends: TAB, LF, VT, FF, CR, SPACE, NBSP, U+1680, U+2000 to U+200A, U+2028,
  U+2029, U+202F, U+205F, U+3000 and U+FEFF.
\<close>

definition isWhiteSpace :: "nat \<Rightarrow> bool" where
  "isWhiteSpace c =
     (c = 0x09 \<or> c = 0x0A \<or> c = 0x0B \<or> c = 0x0C \<or> c = 0x0D \<or> c = 0x20 \<or> c = 0xA0
      \<or> c = 0x1680 \<or> (0x2000 \<le> c \<and> c \<le> 0x200A) \<or> c = 0x2028 \<or> c = 0x2029
      \<or> c = 0x202F \<or> c = 0x205F \<or> c = 0x3000 \<or> c = 0xFEFF)"

definition trim :: "js_string \<Rightarrow> js_string" where
  "trim s = rev (dropWhile isWhiteSpace (rev (dropWhile isWhiteSpace s)))"

definition comma :: nat where
  "comma = 0x2C"

text \<open>
  \<open>getBase64FromDataUrl = (dataUrl) => dataUrl.split(',')[1]\<close>: the text between the first
  comma and the second one (or the end); \<open>undefined\<close>, here \<open>None\<close>, when the string has
  no comma.
\<close>

definition getBase64FromDataUrl :: "js_string \<Rightarrow> js_string option" where
  "getBase64FromDataUrl dataUrl =
     (case dropWhile (\<lambda>c. c \<noteq> comma) dataUrl of
        [] \<Rightarrow> None
      | _ # rest \<Rightarrow> Some (takeWhile (\<lambda>c. c \<noteq> comma) rest))"

section \<open>Application state\<close>

text \<open>
  The \<open>useState\<close> cells of the \<open>App\<close> component. \<open>None\<close> is \<open>null\<close>. The \<open>data\<close> of a
  reference image is whatever \<open>getBase64FromDataUrl\<close> returned, so it is optional too.
\<close>

record reference_image =
  data :: "js_string option"
  mimeType :: js_string

record app_state =
  prompt :: js_string
  generatedImage :: "js_string option"
  referenceImage :: "reference_image option"
  referenceImagePreview :: "js_string option"
  isLoading :: bool
  error :: "js_string option"

section \<open>The image normalizer (\<open>handleFileChange\<close>)\<close>

definition noContextMessage :: js_string where
  "noContextMessage = latin1 (''N'' @ [CHR 0xE3] @ ''o foi poss'' @ [CHR 0xED] @ ''vel processar a imagem. O contexto do canvas n'' @ [CHR 0xE3] @ ''o est'' @ [CHR 0xE1] @ '' dispon'' @ [CHR 0xED] @ ''vel.'')"

definition imageLoadFailedMessage :: js_string where
  "imageLoadFailedMessage = latin1 (''Falha ao carregar a imagem de refer'' @ [CHR 0xEA] @ ''ncia. O arquivo pode estar corrompido ou em um formato n'' @ [CHR 0xE3] @ ''o suportado.'')"

definition readFailedMessage :: js_string where
  "readFailedMessage = latin1 (''Falha ao ler o arquivo selecionado.'')"

text \<open>
  The source rectangle handed to \<open>drawImage\<close>. JavaScript numbers are IEEE doubles; the
  model computes with exact rationals. Image dimensions are non-negative integers.
\<close>

record crop =
  srcX :: rat
  srcY :: rat
  srcWidth :: rat
  srcHeight :: rat

definition targetAspectRatio :: rat where
  "targetAspectRatio = 16 / 9"

text \<open>
  Lines 37 to 55 of the component. Division by a zero height is written out as JavaScript
  does it: \<open>w / 0\<close> is \<open>Infinity\<close> for \<open>w > 0\<close>, which takes the first branch, and
  \<open>0 / 0\<close> is \<open>NaN\<close>, for which both comparisons are false.
\<close>

definition cropRegion :: "nat \<Rightarrow> nat \<Rightarrow> crop" where
  "cropRegion imgWidth imgHeight =
     (let w = of_nat imgWidth; h = of_nat imgHeight in
      if imgHeight = 0 then
        (if imgWidth = 0
         then \<lparr>srcX = 0, srcY = 0, srcWidth = w, srcHeight = h\<rparr>
         else \<lparr>srcX = (w - h * targetAspectRatio) / 2, srcY = 0,
               srcWidth = h * targetAspectRatio, srcHeight = h\<rparr>)
      else
        (let currentAspectRatio = w / h in
         if currentAspectRatio > targetAspectRatio
         then \<lparr>srcX = (w - h * targetAspectRatio) / 2, srcY = 0,
               srcWidth = h * targetAspectRatio, srcHeight = h\<rparr>
         else if currentAspectRatio < targetAspectRatio
         then \<lparr>srcX = 0, srcY = (h - w / targetAspectRatio) / 2,
               srcWidth = w, srcHeight = w / targetAspectRatio\<rparr>
         else \<lparr>srcX = 0, srcY = 0, srcWidth = w, srcHeight = h\<rparr>))"

text \<open>
  The canvas after lines 58 to 62: its size, and the one \<open>drawImage\<close> call made on it
  (source rectangle, then destination origin and size).
\<close>

record canvas =
  canvasWidth :: nat
  canvasHeight :: nat
  source :: crop
  destX :: nat
  destY :: nat
  destWidth :: nat
  destHeight :: nat

definition drawCropped :: "nat \<Rightarrow> nat \<Rightarrow> canvas" where
  "drawCropped imgWidth imgHeight =
     \<lparr>canvasWidth = 1280, canvasHeight = 720, source = cropRegion imgWidth imgHeight,
      destX = 0, destY = 0, destWidth = 1280, destHeight = 720\<rparr>"

text \<open>
  What the browser reports for one file selection: the file's type (\<open>None\<close>: no file was
  chosen), the outcome of the \<open>FileReader\<close>, the outcome of decoding the image with its
  pixel width and height, whether a 2d context exists, and the encoder \<open>toDataURL\<close> of
  the canvas (taking the canvas, the mime type and the quality).
\<close>

datatype reader_event = ReaderOnError | ReaderOnLoad "js_string option"

datatype image_event = ImageOnError | ImageOnLoad nat nat

record upload =
  fileType :: "js_string option"
  reader :: reader_event
  img :: image_event
  context2d :: bool
  toDataURL :: "canvas \<Rightarrow> js_string \<Rightarrow> rat \<Rightarrow> js_string"

definition croppedMimeType :: "js_string \<Rightarrow> js_string" where
  "croppedMimeType ftype =
     (if ftype = latin1 ''image/jpeg'' then latin1 ''image/jpeg'' else latin1 ''image/png'')"

definition imgOnLoad :: "upload \<Rightarrow> js_string \<Rightarrow> nat \<Rightarrow> nat \<Rightarrow> app_state \<Rightarrow> app_state" where
  "imgOnLoad up ftype imgWidth imgHeight s =
     (if \<not> context2d up then s\<lparr>error := Some noContextMessage\<rparr>
      else
        (let cnv = drawCropped imgWidth imgHeight;
             mime = croppedMimeType ftype;
             croppedDataUrl = toDataURL up cnv mime (95 / 100)
         in s\<lparr>referenceImagePreview := Some croppedDataUrl,
              referenceImage := Some \<lparr>data = getBase64FromDataUrl croppedDataUrl,
                                       mimeType = mime\<rparr>\<rparr>))"

definition handleFileChange :: "upload \<Rightarrow> app_state \<Rightarrow> app_state" where
  "handleFileChange up s =
     (case fileType up of
        None \<Rightarrow> s
      | Some ftype \<Rightarrow>
          (case reader up of
             ReaderOnError \<Rightarrow> s\<lparr>error := Some readFailedMessage\<rparr>
           | ReaderOnLoad None \<Rightarrow> s
           | ReaderOnLoad (Some dataUrl) \<Rightarrow>
               if dataUrl = [] then s
               else
                 (case img up of
                    ImageOnError \<Rightarrow> s\<lparr>error := Some imageLoadFailedMessage\<rparr>
                  | ImageOnLoad imgWidth imgHeight \<Rightarrow>
                      imgOnLoad up ftype imgWidth imgHeight s)))"

section \<open>The generation client (\<open>services/geminiService.ts\<close>)\<close>

text \<open>
  A value thrown in JavaScript is an \<open>Error\<close> object carrying a message, or anything else
  (\<open>error instanceof Error\<close> is false for it).
\<close>

datatype thrown = JsError js_string | NonError

record images_request =
  model :: js_string
  requestPrompt :: js_string
  numberOfImages :: nat
  outputMimeType :: js_string
  aspectRatio :: js_string

datatype request_part = InlineDataPart reference_image | TextPart js_string

datatype modality = IMAGE

record content_request =
  contentModel :: js_string
  contentsParts :: "request_part list"
  responseModalities :: "modality list"

text \<open>
  Modelled from the spec: the response types of the remote service, which the SDK
  package declares and this repository does not. The text-to-image response is a
  sequence of generated-image records, each exposing raw image bytes; the
  reference-guided response holds candidate records with ordered content parts, each
  either inline image data (bytes and mime type) or other, and a finish reason. A field
  that the source tests for presence is optional (\<open>None\<close> is \<open>undefined\<close>).
\<close>

record generated_image =
  imageBytes :: "js_string option"

record images_response =
  generatedImages :: "generated_image list option"

datatype response_part = InlineData js_string js_string | OtherPart

record content =
  parts :: "response_part list option"

record candidate =
  content :: "content option"
  finishReason :: "js_string option"

record content_response =
  candidates :: "candidate list option"

text \<open>
  The two remote operations of \<open>ai.models\<close>: each answers a request with a response or
  throws. Every call made is recorded, in order.
\<close>

record sdk =
  generateImages :: "images_request \<Rightarrow> thrown + images_response"
  generateContent :: "content_request \<Rightarrow> thrown + content_response"

datatype remote_call = GenerateImages images_request | GenerateContent content_request

definition noImagesMessage :: js_string where
  "noImagesMessage = latin1 (''A API n'' @ [CHR 0xE3] @ ''o retornou nenhuma imagem.'')"

definition emptyDataMessage :: js_string where
  "emptyDataMessage = latin1 (''Os dados da imagem recebidos est'' @ [CHR 0xE3] @ ''o vazios.'')"

definition quotaMessage :: js_string where
  "quotaMessage = latin1 (''Voc'' @ [CHR 0xEA] @ '' atingiu o limite de requisi'' @ [CHR 0xE7, CHR 0xF5] @ ''es (quota). Por favor, aguarde um minuto e tente novamente.'')"

definition textFailurePrefix :: js_string where
  "textFailurePrefix = latin1 (''Falha ao gerar imagem: '')"

definition textUnexpectedMessage :: js_string where
  "textUnexpectedMessage = latin1 (''Um erro inesperado ocorreu durante a gera'' @ [CHR 0xE7, CHR 0xE3] @ ''o da imagem.'')"

definition instructionBlock :: js_string where
  "instructionBlock = latin1 (''The final output image MUST have a 16:9 aspect ratio, perfect for a YouTube thumbnail. IMPORTANT: Ignore the aspect ratio of any reference images provided. Now, fulfill this request: '')"

definition interruptedPrefix :: js_string where
  "interruptedPrefix = latin1 (''A gera'' @ [CHR 0xE7, CHR 0xE3] @ ''o da imagem foi interrompida. Motivo: '')"

definition noContentMessage :: js_string where
  "noContentMessage = latin1 (''A resposta da API n'' @ [CHR 0xE3] @ ''o continha o conte'' @ [CHR 0xFA] @ ''do esperado ou foi bloqueada.'')"

definition noImagePartMessage :: js_string where
  "noImagePartMessage = latin1 (''A API n'' @ [CHR 0xE3] @ ''o retornou uma imagem no formato esperado.'')"

definition referenceFailurePrefix :: js_string where
  "referenceFailurePrefix = latin1 (''Falha ao gerar/editar imagem com refer'' @ [CHR 0xEA] @ ''ncia: '')"

definition referenceUnexpectedMessage :: js_string where
  "referenceUnexpectedMessage = latin1 (''Um erro inesperado ocorreu durante a gera'' @ [CHR 0xE7, CHR 0xE3] @ ''o/edi'' @ [CHR 0xE7, CHR 0xE3] @ ''o da imagem.'')"

text \<open>
  The two \<open>catch\<close> blocks (lines 38 to 47 and 98 to 107) have one shape and differ in
  their two messages: an \<open>Error\<close> whose message carries a quota marker becomes the quota
  error, any other \<open>Error\<close> is re-raised behind the operation's prefix, and a value that
  is no \<open>Error\<close> becomes the operation's unexpected-failure error.
\<close>

definition catchBlock :: "js_string \<Rightarrow> js_string \<Rightarrow> thrown \<Rightarrow> thrown" where
  "catchBlock failurePrefix unexpectedMessage e =
     (case e of
        JsError message \<Rightarrow>
          if js_includes message (latin1 ''429'')
             \<or> js_includes message (latin1 ''RESOURCE_EXHAUSTED'')
          then JsError quotaMessage
          else JsError (failurePrefix @ message)
      | NonError \<Rightarrow> JsError unexpectedMessage)"

definition textRequest :: "js_string \<Rightarrow> images_request" where
  "textRequest p =
     \<lparr>model = latin1 ''imagen-4.0-generate-001'', requestPrompt = p, numberOfImages = 1,
      outputMimeType = latin1 ''image/png'', aspectRatio = latin1 ''16:9''\<rparr>"

text \<open>Lines 26 to 36: the checks on the response of the text-to-image operation.\<close>

definition firstImageBytes :: "images_response \<Rightarrow> thrown + js_string" where
  "firstImageBytes response =
     (case generatedImages response of
        None \<Rightarrow> Inl (JsError noImagesMessage)
      | Some [] \<Rightarrow> Inl (JsError noImagesMessage)
      | Some (g # _) \<Rightarrow>
          (case imageBytes g of
             None \<Rightarrow> Inl (JsError emptyDataMessage)
           | Some base64ImageBytes \<Rightarrow>
               if base64ImageBytes = [] then Inl (JsError emptyDataMessage)
               else Inr base64ImageBytes))"

definition generateImageWithText ::
    "sdk \<Rightarrow> js_string \<Rightarrow> (thrown + js_string) \<times> remote_call list" where
  "generateImageWithText ai p =
     (let request = textRequest p;
          attempt = (case generateImages ai request of
                       Inl e \<Rightarrow> Inl e
                     | Inr response \<Rightarrow> firstImageBytes response)
      in (case attempt of
            Inl e \<Rightarrow> Inl (catchBlock textFailurePrefix textUnexpectedMessage e)
          | Inr bytes \<Rightarrow> Inr bytes,
          [GenerateImages request]))"

definition enhancedPrompt :: "js_string \<Rightarrow> js_string" where
  "enhancedPrompt p = instructionBlock @ p"

definition referenceRequest :: "js_string \<Rightarrow> reference_image list \<Rightarrow> content_request" where
  "referenceRequest p images =
     \<lparr>contentModel = latin1 ''gemini-2.5-flash-image'',
      contentsParts = map InlineDataPart images @ [TextPart (enhancedPrompt p)],
      responseModalities = [IMAGE]\<rparr>"

text \<open>Lines 90 to 94: the first part that is inline data of an image mime type wins.\<close>

fun firstImagePart :: "response_part list \<Rightarrow> js_string option" where
  "firstImagePart [] = None"
| "firstImagePart (InlineData d m # ps) =
     (if prefix (latin1 ''image/'') m then Some d else firstImagePart ps)"
| "firstImagePart (OtherPart # ps) = firstImagePart ps"

text \<open>
  Lines 84 to 87: reached when the candidate, its content or its parts are missing. The
  finish reason counts when it is a non-empty string other than \<open>STOP\<close>.
\<close>

definition emptyResponseError :: "candidate option \<Rightarrow> thrown" where
  "emptyResponseError cand =
     (case cand of
        None \<Rightarrow> JsError noContentMessage
      | Some c \<Rightarrow>
          (case finishReason c of
             None \<Rightarrow> JsError noContentMessage
           | Some reason \<Rightarrow>
               if reason \<noteq> [] \<and> reason \<noteq> latin1 ''STOP''
               then JsError (interruptedPrefix @ reason)
               else JsError noContentMessage))"

text \<open>Lines 80 to 96: \<open>response.candidates?.[0]\<close> and what is made of it.\<close>

definition parseResponse :: "content_response \<Rightarrow> thrown + js_string" where
  "parseResponse response =
     (let cand = (case candidates response of
                    None \<Rightarrow> None
                  | Some [] \<Rightarrow> None
                  | Some (c # _) \<Rightarrow> Some c)
      in case cand of
           None \<Rightarrow> Inl (emptyResponseError cand)
         | Some c \<Rightarrow>
             (case content c of
                None \<Rightarrow> Inl (emptyResponseError cand)
              | Some cont \<Rightarrow>
                  (case parts cont of
                     None \<Rightarrow> Inl (emptyResponseError cand)
                   | Some ps \<Rightarrow>
                       (case firstImagePart ps of
                          Some d \<Rightarrow> Inr d
                        | None \<Rightarrow> Inl (JsError noImagePartMessage)))))"

definition generateImageWithReference ::
    "sdk \<Rightarrow> js_string \<Rightarrow> reference_image list \<Rightarrow> (thrown + js_string) \<times> remote_call list" where
  "generateImageWithReference ai p images =
     (let request = referenceRequest p images;
          attempt = (case generateContent ai request of
                       Inl e \<Rightarrow> Inl e
                     | Inr response \<Rightarrow> parseResponse response)
      in (case attempt of
            Inl e \<Rightarrow> Inl (catchBlock referenceFailurePrefix referenceUnexpectedMessage e)
          | Inr bytes \<Rightarrow> Inr bytes,
          [GenerateContent request]))"

section \<open>The generate button (\<open>handleGenerateClick\<close>)\<close>

definition describeAdjustmentMessage :: js_string where
  "describeAdjustmentMessage = latin1 (''Por favor, descreva o ajuste desejado.'')"

definition describeThumbnailMessage :: js_string where
  "describeThumbnailMessage = latin1 (''Por favor, insira uma descri'' @ [CHR 0xE7, CHR 0xE3] @ ''o para a thumbnail.'')"

definition unknownErrorMessage :: js_string where
  "unknownErrorMessage = latin1 (''Ocorreu um erro desconhecido ao gerar a imagem.'')"

definition dataUrlPrefix :: js_string where
  "dataUrlPrefix = latin1 ''data:image/png;base64,''"

text \<open>
  Lines 126 to 140: the service call chosen from the state the handler closed over.
  \<open>isEditing\<close> is \<open>generatedImage !== null\<close>.
\<close>

definition callService ::
    "sdk \<Rightarrow> app_state \<Rightarrow> js_string \<Rightarrow> (thrown + js_string) \<times> remote_call list" where
  "callService ai s currentPrompt =
     (case generatedImage s of
        Some g \<Rightarrow>
          (let imagesForApi = [\<lparr>data = getBase64FromDataUrl g,
                                 mimeType = latin1 ''image/png''\<rparr>]
           in generateImageWithReference ai currentPrompt
                (case referenceImage s of
                   Some r \<Rightarrow> imagesForApi @ [r]
                 | None \<Rightarrow> imagesForApi))
      | None \<Rightarrow>
          (case referenceImage s of
             Some r \<Rightarrow> generateImageWithReference ai currentPrompt [r]
           | None \<Rightarrow> generateImageWithText ai currentPrompt))"

text \<open>
  Lines 141 to 150: the state after the call settled. The closure's \<open>isEditing\<close> is the
  one of the state the handler started from.
\<close>

definition settle :: "bool \<Rightarrow> thrown + js_string \<Rightarrow> app_state \<Rightarrow> app_state" where
  "settle isEditing outcome s =
     (let s' = (case outcome of
                  Inr newBase64Image \<Rightarrow>
                    (let s1 = s\<lparr>generatedImage := Some (dataUrlPrefix @ newBase64Image)\<rparr>
                     in if isEditing then s1\<lparr>prompt := []\<rparr> else s1)
                | Inl (JsError message) \<Rightarrow> s\<lparr>error := Some message\<rparr>
                | Inl NonError \<Rightarrow> s\<lparr>error := Some unknownErrorMessage\<rparr>)
      in s'\<lparr>isLoading := False\<rparr>)"

definition handleGenerateClick :: "sdk \<Rightarrow> app_state \<Rightarrow> app_state \<times> remote_call list" where
  "handleGenerateClick ai s =
     (let currentPrompt = trim (prompt s);
          isEditing = (generatedImage s \<noteq> None)
      in if currentPrompt = []
         then (s\<lparr>error := Some (if isEditing then describeAdjustmentMessage
                                  else describeThumbnailMessage)\<rparr>, [])
         else
           (let s1 = s\<lparr>isLoading := True, error := None\<rparr>;
                s2 = (if \<not> isEditing then s1\<lparr>generatedImage := None\<rparr> else s1);
                (outcome, calls) = callService ai s currentPrompt
            in (settle isEditing outcome s2, calls)))"

section \<open>Example inputs\<close>

text \<open>Concrete states, uploads and remote services on which the theorems are instantiated.\<close>

definition exampleState :: app_state where
  "exampleState =
     \<lparr>prompt = latin1 '' a cat '', generatedImage = None, referenceImage = None,
      referenceImagePreview = None, isLoading = False, error = None\<rparr>"

definition exampleReference :: reference_image where
  "exampleReference = \<lparr>data = Some (latin1 ''UkVG''), mimeType = latin1 ''image/jpeg''\<rparr>"

definition examplePrior :: js_string where
  "examplePrior = dataUrlPrefix @ latin1 ''T0xE''"

definition exampleUpload :: upload where
  "exampleUpload =
     \<lparr>fileType = Some (latin1 ''image/jpeg''), reader = ReaderOnLoad (Some (latin1 ''data:,'')),
      img = ImageOnLoad 2000 1000, context2d = True,
      toDataURL = (\<lambda>cnv mime quality. latin1 ''data:'' @ mime @ latin1 '';base64,Q1JPUA=='')\<rparr>"

definition exampleImagesResponse :: images_response where
  "exampleImagesResponse = \<lparr>generatedImages = Some [\<lparr>imageBytes = Some (latin1 ''TkVX'')\<rparr>]\<rparr>"

definition exampleContentResponse :: content_response where
  "exampleContentResponse =
     \<lparr>candidates = Some [\<lparr>content = Some \<lparr>parts = Some [OtherPart,
                              InlineData (latin1 ''RURJVA=='') (latin1 ''image/png'')]\<rparr>,
                          finishReason = Some (latin1 ''STOP'')\<rparr>]\<rparr>"

definition workingSdk :: sdk where
  "workingSdk = \<lparr>generateImages = (\<lambda>request. Inr exampleImagesResponse),
                 generateContent = (\<lambda>request. Inr exampleContentResponse)\<rparr>"

definition exhaustedSdk :: sdk where
  "exhaustedSdk =
     \<lparr>generateImages = (\<lambda>request. Inl (JsError (latin1 ''got status: 429 RESOURCE_EXHAUSTED''))),
      generateContent = (\<lambda>request. Inl (JsError (latin1 ''got status: 429 RESOURCE_EXHAUSTED'')))\<rparr>"






section \<open>Facts about the string operations\<close>



lemma all_dropWhile: "(\<forall>x \<in> set (dropWhile P xs). P x) \<longleftrightarrow> (\<forall>x \<in> set xs. P x)"
  by (induction xs) auto

lemma trim_empty_iff: "trim s = [] \<longleftrightarrow> (\<forall>c \<in> set s. isWhiteSpace c)"
  by (simp add: trim_def dropWhile_eq_Nil_conv all_dropWhile)

lemma trim_example: "trim (latin1 '' a cat '') = latin1 ''a cat''"
  by (simp add: trim_def latin1_def isWhiteSpace_def)

lemma getBase64_dataUrl:
  "getBase64FromDataUrl (dataUrlPrefix @ b) = Some (takeWhile (\<lambda>c. c \<noteq> comma) b)"
  by (simp add: getBase64FromDataUrl_def dataUrlPrefix_def latin1_def comma_def)

lemma getBase64_dataUrl_plain:
  "comma \<notin> set b \<Longrightarrow> getBase64FromDataUrl (dataUrlPrefix @ b) = Some b"
  by (auto simp: getBase64_dataUrl takeWhile_eq_all_conv)

section \<open>The normalizer's crop and canvas\<close>



text \<open>
  C7. Whatever the input image, the normalizer's output is 1280 by 720. The image
  decoded from that output has the dimensions of the canvas; normalizing it again crops
  nothing (the source rectangle is the whole image) and gives the same dimensions.
\<close>

theorem renormalize_dimensions:
  "canvasWidth (drawCropped W H) = 1280 \<and> canvasHeight (drawCropped W H) = 720
   \<and> canvasWidth (drawCropped (canvasWidth (drawCropped W H)) (canvasHeight (drawCropped W H)))
       = canvasWidth (drawCropped W H)
   \<and> canvasHeight (drawCropped (canvasWidth (drawCropped W H)) (canvasHeight (drawCropped W H)))
       = canvasHeight (drawCropped W H)
   \<and> source (drawCropped (canvasWidth (drawCropped W H)) (canvasHeight (drawCropped W H)))
       = \<lparr>srcX = 0, srcY = 0, srcWidth = of_nat (canvasWidth (drawCropped W H)),
          srcHeight = of_nat (canvasHeight (drawCropped W H))\<rparr>"
  by (simp add: cropRegion_def drawCropped_def targetAspectRatio_def Let_def)

section \<open>Uploading a reference image\<close>

lemma handleFileChange_loaded:
  assumes "fileType up = Some ftype" and "reader up = ReaderOnLoad (Some dataUrl)"
    and "dataUrl \<noteq> []" and "img up = ImageOnLoad w h" and "context2d up"
  shows "handleFileChange up s =
           s\<lparr>referenceImagePreview :=
                Some (toDataURL up (drawCropped w h) (croppedMimeType ftype) (95 / 100)),
              referenceImage :=
                Some \<lparr>data = getBase64FromDataUrl
                               (toDataURL up (drawCropped w h) (croppedMimeType ftype) (95 / 100)),
                      mimeType = croppedMimeType ftype\<rparr>\<rparr>"
  using assms by (simp add: handleFileChange_def imgOnLoad_def Let_def)

text \<open>
  C9. When normalizing an uploaded reference image fails (the file cannot be read, the
  image cannot be decoded, or no canvas context is available), only the error message
  is set: the prompt, the generated image and a reference image set before stay as they
  were.
\<close>

theorem normalization_failure_frame:
  assumes "fileType up = Some ftype"
    and "reader up = ReaderOnError
         \<or> (reader up = ReaderOnLoad (Some dataUrl) \<and> dataUrl \<noteq> []
            \<and> (img up = ImageOnError \<or> (img up = ImageOnLoad w h \<and> \<not> context2d up)))"
  shows "handleFileChange up s =
           s\<lparr>error := Some (if reader up = ReaderOnError then readFailedMessage
                             else if img up = ImageOnError then imageLoadFailedMessage
                             else noContextMessage)\<rparr>
       \<and> prompt (handleFileChange up s) = prompt s
       \<and> generatedImage (handleFileChange up s) = generatedImage s
       \<and> referenceImage (handleFileChange up s) = referenceImage s
       \<and> referenceImagePreview (handleFileChange up s) = referenceImagePreview s
       \<and> isLoading (handleFileChange up s) = isLoading s"
  using assms by (auto simp: handleFileChange_def imgOnLoad_def)

theorem normalization_failure_frame_witness:
  "handleFileChange (exampleUpload\<lparr>reader := ReaderOnError\<rparr>)
       (exampleState\<lparr>referenceImage := Some exampleReference\<rparr>)
     = exampleState\<lparr>referenceImage := Some exampleReference, error := Some readFailedMessage\<rparr>
   \<and> handleFileChange (exampleUpload\<lparr>img := ImageOnError\<rparr>)
       (exampleState\<lparr>referenceImage := Some exampleReference\<rparr>)
     = exampleState\<lparr>referenceImage := Some exampleReference,
                     error := Some imageLoadFailedMessage\<rparr>
   \<and> handleFileChange (exampleUpload\<lparr>context2d := False\<rparr>)
       (exampleState\<lparr>referenceImage := Some exampleReference\<rparr>)
     = exampleState\<lparr>referenceImage := Some exampleReference, error := Some noContextMessage\<rparr>"
  using
    normalization_failure_frame [of "exampleUpload\<lparr>reader := ReaderOnError\<rparr>"
      "latin1 ''image/jpeg''" "latin1 ''data:,''" 2000 1000
      "exampleState\<lparr>referenceImage := Some exampleReference\<rparr>"]
    normalization_failure_frame [of "exampleUpload\<lparr>img := ImageOnError\<rparr>"
      "latin1 ''image/jpeg''" "latin1 ''data:,''" 2000 1000
      "exampleState\<lparr>referenceImage := Some exampleReference\<rparr>"]
    normalization_failure_frame [of "exampleUpload\<lparr>context2d := False\<rparr>"
      "latin1 ''image/jpeg''" "latin1 ''data:,''" 2000 1000
      "exampleState\<lparr>referenceImage := Some exampleReference\<rparr>"]
  by (simp add: exampleUpload_def latin1_def)

section \<open>The calls made by the generate button\<close>

lemma generateImageWithText_calls:
  "snd (generateImageWithText ai p) = [GenerateImages (textRequest p)]"
  by (simp add: generateImageWithText_def Let_def)

lemma generateImageWithReference_calls:
  "snd (generateImageWithReference ai p images) = [GenerateContent (referenceRequest p images)]"
  by (simp add: generateImageWithReference_def Let_def)

lemma handleGenerateClick_blank:
  "trim (prompt s) = [] \<Longrightarrow>
   handleGenerateClick ai s =
     (s\<lparr>error := Some (if generatedImage s \<noteq> None then describeAdjustmentMessage
                       else describeThumbnailMessage)\<rparr>, [])"
  by (simp add: handleGenerateClick_def Let_def)

lemma handleGenerateClick_call:
  "trim (prompt s) \<noteq> [] \<Longrightarrow>
   handleGenerateClick ai s =
     (settle (generatedImage s \<noteq> None) (fst (callService ai s (trim (prompt s))))
        (if generatedImage s = None
         then s\<lparr>isLoading := True, error := None, generatedImage := None\<rparr>
         else s\<lparr>isLoading := True, error := None\<rparr>),
      snd (callService ai s (trim (prompt s))))"
  by (simp add: handleGenerateClick_def Let_def split: prod.splits)

lemma callService_calls:
  "snd (callService ai s p) =
     (case generatedImage s of
        Some g \<Rightarrow>
          [GenerateContent (referenceRequest p
             (\<lparr>data = getBase64FromDataUrl g, mimeType = latin1 ''image/png''\<rparr>
              # (case referenceImage s of Some r \<Rightarrow> [r] | None \<Rightarrow> [])))]
      | None \<Rightarrow>
          (case referenceImage s of
             Some r \<Rightarrow> [GenerateContent (referenceRequest p [r])]
           | None \<Rightarrow> [GenerateImages (textRequest p)]))"
  by (simp add: callService_def Let_def generateImageWithText_calls
      generateImageWithReference_calls split: option.splits)

text \<open>
  C5. A prompt that is empty once trimmed (empty, or white space only) is rejected by
  the generate button with a message for the user, and no remote operation is called:
  the list of remote calls is empty and only the error message changes.
\<close>

theorem blank_prompt_rejected:
  assumes "trim (prompt s) = []"
  shows "snd (handleGenerateClick ai s) = []
       \<and> fst (handleGenerateClick ai s) =
           s\<lparr>error := Some (if generatedImage s \<noteq> None then describeAdjustmentMessage
                             else describeThumbnailMessage)\<rparr>
       \<and> describeAdjustmentMessage \<noteq> [] \<and> describeThumbnailMessage \<noteq> []"
  using assms
  by (simp add: handleGenerateClick_blank describeAdjustmentMessage_def
      describeThumbnailMessage_def latin1_def)

theorem blank_prompt_rejected_witness:
  "trim (prompt (exampleState\<lparr>prompt := latin1 ''   ''\<rparr>)) = []
   \<and> snd (handleGenerateClick workingSdk (exampleState\<lparr>prompt := latin1 ''   ''\<rparr>)) = []
   \<and> fst (handleGenerateClick workingSdk (exampleState\<lparr>prompt := latin1 ''   ''\<rparr>))
       = exampleState\<lparr>prompt := latin1 ''   '', error := Some describeThumbnailMessage\<rparr>"
proof -
  have blank: "trim (prompt (exampleState\<lparr>prompt := latin1 ''   ''\<rparr>)) = []"
    by (simp add: trim_def latin1_def isWhiteSpace_def)
  show ?thesis
    using blank blank_prompt_rejected [OF blank, of workingSdk]
    by (simp add: exampleState_def)
qed

text \<open>
  C2. When a call is made (the trimmed prompt is not empty), the text-to-image operation
  is the one called exactly when there is neither a prior generated image nor a user
  reference. With a prior image \<open>P\<close> the reference-guided operation receives \<open>[P]\<close>, or
  \<open>[P, R]\<close> in that order when the user reference \<open>R\<close> is present, \<open>P\<close> being sent with
  mime type \<open>image/png\<close>; with only \<open>R\<close> it receives \<open>[R]\<close>.
\<close>

theorem mode_selection:
  assumes "trim (prompt s) \<noteq> []"
  shows "((\<exists>request. snd (handleGenerateClick ai s) = [GenerateImages request])
            \<longleftrightarrow> generatedImage s = None \<and> referenceImage s = None)
       \<and> (generatedImage s = None \<and> referenceImage s = None \<longrightarrow>
            snd (handleGenerateClick ai s) = [GenerateImages (textRequest (trim (prompt s)))])
       \<and> (generatedImage s = Some P \<and> referenceImage s = None \<longrightarrow>
            snd (handleGenerateClick ai s) =
              [GenerateContent (referenceRequest (trim (prompt s))
                 [\<lparr>data = getBase64FromDataUrl P, mimeType = latin1 ''image/png''\<rparr>])])
       \<and> (generatedImage s = Some P \<and> referenceImage s = Some R \<longrightarrow>
            snd (handleGenerateClick ai s) =
              [GenerateContent (referenceRequest (trim (prompt s))
                 [\<lparr>data = getBase64FromDataUrl P, mimeType = latin1 ''image/png''\<rparr>, R])])
       \<and> (generatedImage s = None \<and> referenceImage s = Some R \<longrightarrow>
            snd (handleGenerateClick ai s) =
              [GenerateContent (referenceRequest (trim (prompt s)) [R])])"
  using assms
  by (auto simp: handleGenerateClick_call callService_calls split: option.splits)

theorem mode_selection_witness:
  "snd (handleGenerateClick workingSdk exampleState)
     = [GenerateImages (textRequest (latin1 ''a cat''))]
   \<and> snd (handleGenerateClick workingSdk (exampleState\<lparr>generatedImage := Some examplePrior\<rparr>))
     = [GenerateContent (referenceRequest (latin1 ''a cat'')
          [\<lparr>data = Some (latin1 ''T0xE''), mimeType = latin1 ''image/png''\<rparr>])]
   \<and> snd (handleGenerateClick workingSdk
            (exampleState\<lparr>generatedImage := Some examplePrior,
                           referenceImage := Some exampleReference\<rparr>))
     = [GenerateContent (referenceRequest (latin1 ''a cat'')
          [\<lparr>data = Some (latin1 ''T0xE''), mimeType = latin1 ''image/png''\<rparr>, exampleReference])]
   \<and> snd (handleGenerateClick workingSdk (exampleState\<lparr>referenceImage := Some exampleReference\<rparr>))
     = [GenerateContent (referenceRequest (latin1 ''a cat'') [exampleReference])]"
proof -
  have prior: "getBase64FromDataUrl examplePrior = Some (latin1 ''T0xE'')"
    by (simp add: examplePrior_def getBase64_dataUrl) (simp add: latin1_def comma_def)
  have p: "trim (prompt exampleState) = latin1 ''a cat''" "latin1 ''a cat'' \<noteq> []"
    by (simp_all add: exampleState_def trim_example) (simp add: latin1_def)
  show ?thesis
    using mode_selection [of exampleState workingSdk]
      mode_selection [of "exampleState\<lparr>generatedImage := Some examplePrior\<rparr>" workingSdk
        examplePrior]
      mode_selection [of "exampleState\<lparr>generatedImage := Some examplePrior,
        referenceImage := Some exampleReference\<rparr>" workingSdk examplePrior exampleReference]
      mode_selection [of "exampleState\<lparr>referenceImage := Some exampleReference\<rparr>" workingSdk
        _ exampleReference]
      p prior
    by (simp add: exampleState_def)
qed

section \<open>The requests sent by the generation client\<close>

text \<open>
  C6. For a prompt \<open>p\<close> and a non-empty list of reference images,
  \<open>generateImageWithReference\<close> sends one request; its content parts are the images as
  inline data (bytes and mime type), in the given order, followed by one text part: the
  fixed instruction block, which demands a 16:9 aspect ratio, with \<open>p\<close> appended.
\<close>

theorem reference_request_parts:
  assumes "images \<noteq> []"
  shows "snd (generateImageWithReference ai p images)
           = [GenerateContent (referenceRequest p images)]
       \<and> contentsParts (referenceRequest p images)
           = map InlineDataPart images @ [TextPart (instructionBlock @ p)]
       \<and> js_includes instructionBlock (latin1 ''MUST have a 16:9 aspect ratio'')"
proof -
  have "js_includes instructionBlock (latin1 ''MUST have a 16:9 aspect ratio'')"
    by (simp add: instructionBlock_def latin1_def)
  then show ?thesis
    by (simp add: generateImageWithReference_calls referenceRequest_def enhancedPrompt_def)
qed

theorem reference_request_parts_witness:
  "snd (generateImageWithReference workingSdk (latin1 ''a cat'')
          [\<lparr>data = Some (latin1 ''T0xE''), mimeType = latin1 ''image/png''\<rparr>, exampleReference])
     = [GenerateContent
          \<lparr>contentModel = latin1 ''gemini-2.5-flash-image'',
           contentsParts =
             [InlineDataPart \<lparr>data = Some (latin1 ''T0xE''), mimeType = latin1 ''image/png''\<rparr>,
              InlineDataPart exampleReference,
              TextPart (instructionBlock @ latin1 ''a cat'')],
           responseModalities = [IMAGE]\<rparr>]"
  using reference_request_parts [of
      "[\<lparr>data = Some (latin1 ''T0xE''), mimeType = latin1 ''image/png''\<rparr>, exampleReference]"
      workingSdk "latin1 ''a cat''"]
  by (simp add: referenceRequest_def enhancedPrompt_def)

section \<open>Failures of the generation client\<close>

lemma quotaMessage_head: "quotaMessage = 86 # tl quotaMessage"
  by (simp add: quotaMessage_def latin1_def)

lemma quotaMessage_distinct:
  "quotaMessage \<noteq> textFailurePrefix @ m" "quotaMessage \<noteq> referenceFailurePrefix @ m"
  "quotaMessage \<noteq> textUnexpectedMessage" "quotaMessage \<noteq> referenceUnexpectedMessage"
  by (subst quotaMessage_head,
      simp add: textFailurePrefix_def referenceFailurePrefix_def textUnexpectedMessage_def
        referenceUnexpectedMessage_def latin1_def)+

lemma quotaMessage_wait: "js_includes quotaMessage (latin1 ''aguarde um minuto e tente novamente'')"
  by (simp add: quotaMessage_def latin1_def)

lemma catchBlock_quota:
  "js_includes m (latin1 ''429'') \<or> js_includes m (latin1 ''RESOURCE_EXHAUSTED'') \<Longrightarrow>
   catchBlock pre unexpected (JsError m) = JsError quotaMessage"
  by (auto simp: catchBlock_def)


text \<open>
  C4. A failure whose message contains \<open>RESOURCE_EXHAUSTED\<close> or \<open>429\<close> is re-raised by
  both \<open>generateImageWithText\<close> and \<open>generateImageWithReference\<close> as the quota error,
  which asks the user to wait a minute and try again; the quota error is neither the
  prefixed generic failure nor the unexpected-failure error of either operation.
\<close>

theorem quota_failure_rethrown:
  assumes "js_includes m (latin1 ''RESOURCE_EXHAUSTED'') \<or> js_includes m (latin1 ''429'')"
  shows "(generateImages ai (textRequest p) = Inl (JsError m) \<longrightarrow>
            fst (generateImageWithText ai p) = Inl (JsError quotaMessage))
       \<and> (generateContent ai (referenceRequest q images) = Inl (JsError m) \<longrightarrow>
            fst (generateImageWithReference ai q images) = Inl (JsError quotaMessage))
       \<and> catchBlock textFailurePrefix textUnexpectedMessage (JsError m) = JsError quotaMessage
       \<and> catchBlock referenceFailurePrefix referenceUnexpectedMessage (JsError m)
           = JsError quotaMessage
       \<and> js_includes quotaMessage (latin1 ''aguarde um minuto e tente novamente'')
       \<and> quotaMessage \<noteq> textFailurePrefix @ m \<and> quotaMessage \<noteq> textUnexpectedMessage
       \<and> quotaMessage \<noteq> referenceFailurePrefix @ m
       \<and> quotaMessage \<noteq> referenceUnexpectedMessage"
proof -
  have c: "catchBlock pre unexpected (JsError m) = JsError quotaMessage" for pre unexpected
    using assms by (auto simp: catchBlock_quota)
  show ?thesis
    by (simp add: generateImageWithText_def generateImageWithReference_def Let_def c
        quotaMessage_wait quotaMessage_distinct)
qed

theorem quota_failure_rethrown_witness:
  "fst (generateImageWithText exhaustedSdk (latin1 ''a cat'')) = Inl (JsError quotaMessage)
   \<and> fst (generateImageWithReference exhaustedSdk (latin1 ''a cat'') [exampleReference])
       = Inl (JsError quotaMessage)"
proof -
  have m: "js_includes (latin1 ''got status: 429 RESOURCE_EXHAUSTED'') (latin1 ''RESOURCE_EXHAUSTED'')
           \<or> js_includes (latin1 ''got status: 429 RESOURCE_EXHAUSTED'') (latin1 ''429'')"
    by (simp add: latin1_def)
  show ?thesis
    using quota_failure_rethrown [OF m, of exhaustedSdk "latin1 ''a cat''" "latin1 ''a cat''"
        "[exampleReference]"]
    by (simp add: exhaustedSdk_def)
qed













section \<open>Refinement\<close>

text \<open>
  C10. A successful call made while a prior generated image exists resets the prompt to
  the empty string and leaves the user's reference image as it was, so the next
  refinement request carries the new image followed by that same reference. A failed
  call leaves the prompt (and both images) unchanged.
\<close>

theorem refinement_resets_prompt:
  assumes "generatedImage s = Some g" and "trim (prompt s) \<noteq> []"
  shows "(fst (generateImageWithReference ai (trim (prompt s))
                 (\<lparr>data = getBase64FromDataUrl g, mimeType = latin1 ''image/png''\<rparr>
                  # (case referenceImage s of Some r \<Rightarrow> [r] | None \<Rightarrow> []))) = Inr b \<longrightarrow>
            prompt (fst (handleGenerateClick ai s)) = []
            \<and> referenceImage (fst (handleGenerateClick ai s)) = referenceImage s
            \<and> generatedImage (fst (handleGenerateClick ai s)) = Some (dataUrlPrefix @ b)
            \<and> (referenceImage s = Some R \<and> trim q \<noteq> [] \<longrightarrow>
                 snd (handleGenerateClick ai' ((fst (handleGenerateClick ai s))\<lparr>prompt := q\<rparr>))
                   = [GenerateContent (referenceRequest (trim q)
                        [\<lparr>data = getBase64FromDataUrl (dataUrlPrefix @ b),
                          mimeType = latin1 ''image/png''\<rparr>, R])]))
       \<and> (fst (generateImageWithReference ai (trim (prompt s))
                 (\<lparr>data = getBase64FromDataUrl g, mimeType = latin1 ''image/png''\<rparr>
                  # (case referenceImage s of Some r \<Rightarrow> [r] | None \<Rightarrow> []))) = Inl e \<longrightarrow>
            prompt (fst (handleGenerateClick ai s)) = prompt s
            \<and> referenceImage (fst (handleGenerateClick ai s)) = referenceImage s
            \<and> generatedImage (fst (handleGenerateClick ai s)) = generatedImage s)"
proof -
  let ?images = "\<lparr>data = getBase64FromDataUrl g, mimeType = latin1 ''image/png''\<rparr>
                  # (case referenceImage s of Some r \<Rightarrow> [r] | None \<Rightarrow> [])"
  have call: "callService ai s (trim (prompt s))
                = generateImageWithReference ai (trim (prompt s)) ?images"
    using assms(1) by (simp add: callService_def Let_def split: option.splits)
  have step: "fst (handleGenerateClick ai s)
                = settle True (fst (generateImageWithReference ai (trim (prompt s)) ?images))
                    (s\<lparr>isLoading := True, error := None\<rparr>)"
    using assms by (simp add: handleGenerateClick_call call)
  show ?thesis
    unfolding step
    by (auto simp: settle_def Let_def handleGenerateClick_call callService_calls
        split: thrown.splits)
qed

theorem refinement_resets_prompt_witness:
  "prompt (fst (handleGenerateClick workingSdk
      (exampleState\<lparr>generatedImage := Some examplePrior,
                     referenceImage := Some exampleReference\<rparr>))) = []
   \<and> referenceImage (fst (handleGenerateClick workingSdk
      (exampleState\<lparr>generatedImage := Some examplePrior,
                     referenceImage := Some exampleReference\<rparr>))) = Some exampleReference
   \<and> snd (handleGenerateClick exhaustedSdk
       ((fst (handleGenerateClick workingSdk
          (exampleState\<lparr>generatedImage := Some examplePrior,
                         referenceImage := Some exampleReference\<rparr>)))\<lparr>prompt := latin1 ''bluer''\<rparr>))
     = [GenerateContent (referenceRequest (latin1 ''bluer'')
          [\<lparr>data = Some (latin1 ''RURJVA==''), mimeType = latin1 ''image/png''\<rparr>,
           exampleReference])]
   \<and> prompt (fst (handleGenerateClick exhaustedSdk
      (exampleState\<lparr>generatedImage := Some examplePrior,
                     referenceImage := Some exampleReference\<rparr>))) = latin1 '' a cat ''"
proof -
  let ?s = "exampleState\<lparr>generatedImage := Some examplePrior,
                          referenceImage := Some exampleReference\<rparr>"
  have g: "generatedImage ?s = Some examplePrior" by simp
  have p: "trim (prompt ?s) = latin1 ''a cat''" "latin1 ''a cat'' \<noteq> []"
    by (simp_all add: exampleState_def trim_example) (simp add: latin1_def)
  have p': "trim (prompt ?s) \<noteq> []" using p by simp
  have q: "trim (latin1 ''bluer'') = latin1 ''bluer''" "latin1 ''bluer'' \<noteq> []"
    by (simp_all add: trim_def latin1_def isWhiteSpace_def)
  have ok: "fst (generateImageWithReference workingSdk (latin1 ''a cat'') images)
              = Inr (latin1 ''RURJVA=='')" for images
    by (simp add: generateImageWithReference_def Let_def workingSdk_def parseResponse_def
        exampleContentResponse_def) (simp add: latin1_def)
  have ko: "fst (generateImageWithReference exhaustedSdk (latin1 ''a cat'') images)
              = Inl (JsError quotaMessage)" for images
    by (simp add: generateImageWithReference_def Let_def exhaustedSdk_def catchBlock_def)
       (simp add: latin1_def)
  have d: "getBase64FromDataUrl (dataUrlPrefix @ latin1 ''RURJVA=='') = Some (latin1 ''RURJVA=='')"
    by (simp add: getBase64_dataUrl) (simp add: latin1_def comma_def)
  have r: "referenceImage ?s = Some exampleReference" by simp
  show ?thesis
    using refinement_resets_prompt [OF g p', of workingSdk "latin1 ''RURJVA==''"
        exampleReference "latin1 ''bluer''" exhaustedSdk]
      refinement_resets_prompt [OF g p', of exhaustedSdk _ _ _ _ "JsError quotaMessage"]
      p q ok ko d r
    by (simp add: exampleState_def)
qed

end
